theory Spec2Isabelle
  imports Main "HOL-Library.AList"
begin

section \<open>Membership classifier (Home and Profile screens)\<close>

text \<open>
  Both screens declare a local \<open>getMembershipLevel (points: number)\<close>. The Home screen
  returns an object with the fields \<open>level\<close> and \<open>color\<close>; the Profile screen returns
  the same two fields and an \<open>icon\<close>. The point balance is an integer column of the
  store, so \<open>number\<close> is read as \<open>int\<close>. The icons are emoji; they are kept as
  their UTF-8 bytes.
\<close>

record MembershipInfo =
  level :: string
  color :: string

record MembershipInfoIcon = MembershipInfo +
  icon :: string

definition getMembershipLevel_home :: "int \<Rightarrow> MembershipInfo" where
  "getMembershipLevel_home pts =
     (if pts \<ge> 10000 then \<lparr>level = ''Diamond'', color = ''#8B5CF6''\<rparr>
      else if pts \<ge> 5000 then \<lparr>level = ''Gold'', color = ''#F59E0B''\<rparr>
      else if pts \<ge> 1000 then \<lparr>level = ''Silver'', color = ''#6B7280''\<rparr>
      else \<lparr>level = ''Bronze'', color = ''#92400E''\<rparr>)"

definition getMembershipLevel_profile :: "int \<Rightarrow> MembershipInfoIcon" where
  "getMembershipLevel_profile pts =
     (if pts \<ge> 10000 then
        \<lparr>level = ''Diamond'', color = ''#8B5CF6'',
         icon = [CHR 0xF0, CHR 0x9F, CHR 0x92, CHR 0x8E]\<rparr>
      else if pts \<ge> 5000 then
        \<lparr>level = ''Gold'', color = ''#F59E0B'',
         icon = [CHR 0xF0, CHR 0x9F, CHR 0x8F, CHR 0x86]\<rparr>
      else if pts \<ge> 1000 then
        \<lparr>level = ''Silver'', color = ''#6B7280'',
         icon = [CHR 0xF0, CHR 0x9F, CHR 0xA5, CHR 0x88]\<rparr>
      else
        \<lparr>level = ''Bronze'', color = ''#92400E'',
         icon = [CHR 0xF0, CHR 0x9F, CHR 0xA5, CHR 0x89]\<rparr>)"


section \<open>Screen state and the profile fetch (Home and Profile screens)\<close>

text \<open>
  \<open>User\<close> is the identity object handed out by the authentication context; the screens
  read its \<open>id\<close> only. React compares effect dependencies by object identity, which the
  field \<open>ref\<close> stands for. \<open>UserProfile\<close> is the interface both screens declare.
\<close>

record User =
  id_user :: string
  ref :: nat

record UserProfile =
  id_profile :: string
  email :: string
  full_name :: string
  points :: int
  created_at :: string

text \<open>
  What the awaited query \<open>supabase.from('user_profiles').select('*').eq('id', user.id).single()\<close>
  can do: resolve with a row, resolve with an error object (no row found, a store or
  transport error), or throw.
\<close>

datatype response = Data UserProfile | Error string | Throw string

text \<open>
  The three \<open>useState\<close> cells of a screen, and the effects a claim can observe: the
  \<open>Alert.alert (title, message)\<close> calls, the \<open>console.error\<close> labels and the ids the
  store was queried for, each in order of occurrence.
\<close>

record screen =
  userProfile :: "UserProfile option"
  loading :: bool
  refreshing :: bool
  alerts :: "(string \<times> string) list"
  console_error :: "string list"
  requests :: "string list"

definition initial_screen :: screen where
  "initial_screen =
     \<lparr>userProfile = None, loading = True, refreshing = False,
      alerts = [], console_error = [], requests = []\<rparr>"

text \<open>
  \<open>fetchUserProfile\<close> is the same text in both screens. It is an async function with one
  \<open>await\<close>: the part before it either returns (no identity) or leaves the screen
  waiting for the store's answer to one query; the part after it runs when the answer
  arrives, on the state the screen has then.
\<close>

datatype suspended = Returned screen | Awaiting string screen

fun state_of :: "suspended \<Rightarrow> screen" where
  "state_of (Returned s) = s"
| "state_of (Awaiting q s) = s"

definition fetchUserProfile_begin :: "User option \<Rightarrow> screen \<Rightarrow> suspended" where
  "fetchUserProfile_begin usr s =
     (case usr of
        None \<Rightarrow> Returned s
      | Some u \<Rightarrow> Awaiting (id_user u) (s\<lparr>requests := requests s @ [id_user u]\<rparr>))"

definition fetchUserProfile_resume :: "response \<Rightarrow> screen \<Rightarrow> screen" where
  "fetchUserProfile_resume r s =
     (let s' =
        (case r of
           Error e \<Rightarrow>
             s\<lparr>console_error := console_error s @ [''Error fetching profile:''],
               alerts := alerts s @ [(''Error'', ''Failed to load profile data'')]\<rparr>
         | Data d \<Rightarrow> s\<lparr>userProfile := Some d\<rparr>
         | Throw e \<Rightarrow>
             s\<lparr>console_error := console_error s @ [''Error:''],
               alerts := alerts s @ [(''Error'', ''Something went wrong'')]\<rparr>)
      in s'\<lparr>loading := False\<rparr>)"

text \<open>The whole call, with the store given as the answer it has for each id.\<close>

definition fetchUserProfile :: "(string \<Rightarrow> response) \<Rightarrow> User option \<Rightarrow> screen \<Rightarrow> screen" where
  "fetchUserProfile supabase usr s =
     (case fetchUserProfile_begin usr s of
        Returned s' \<Rightarrow> s'
      | Awaiting q s' \<Rightarrow> fetchUserProfile_resume (supabase q) s')"

text \<open>
  \<open>onRefresh\<close>: \<open>setRefreshing(true); await fetchUserProfile(); setRefreshing(false)\<close>.
\<close>

definition onRefresh_begin :: "User option \<Rightarrow> screen \<Rightarrow> suspended" where
  "onRefresh_begin usr s = fetchUserProfile_begin usr (s\<lparr>refreshing := True\<rparr>)"

definition onRefresh_resume :: "response \<Rightarrow> screen \<Rightarrow> screen" where
  "onRefresh_resume r s = (fetchUserProfile_resume r s)\<lparr>refreshing := False\<rparr>"

definition onRefresh :: "(string \<Rightarrow> response) \<Rightarrow> User option \<Rightarrow> screen \<Rightarrow> screen" where
  "onRefresh supabase usr s =
     (case onRefresh_begin usr s of
        Returned s' \<Rightarrow> s'\<lparr>refreshing := False\<rparr>
      | Awaiting q s' \<Rightarrow> onRefresh_resume (supabase q) s')"

text \<open>
  What a screen renders, as far as the claims go: the loading view, or the content view
  with the name line, the points text, the membership badge and the state of the refresh
  control. \<open>toLocaleString\<close> is the host's number formatting, taken as a parameter.
\<close>

datatype HomeView =
  Loading_home
| Content_home (nameText: string) (pointsValue: string)
    (membershipBadge: "MembershipInfo option") (refreshControl: bool)

definition HomeScreen :: "(int \<Rightarrow> string) \<Rightarrow> screen \<Rightarrow> HomeView" where
  "HomeScreen toLocaleString s =
     (if loading s then Loading_home
      else Content_home
        ((case userProfile s of
            None \<Rightarrow> ''User''
          | Some p \<Rightarrow> if full_name p = [] then ''User'' else full_name p) @ ''!'')
        (case userProfile s of None \<Rightarrow> ''0'' | Some p \<Rightarrow> toLocaleString (points p))
        (case userProfile s of
           None \<Rightarrow> None
         | Some p \<Rightarrow> Some (getMembershipLevel_home (points p)))
        (refreshing s))"

datatype ProfileView =
  Loading_profile
| Content_profile (profileName: string) (pointsText: string)
    (membershipIcon: "MembershipInfoIcon option") (refreshControlProfile: bool)

definition ProfileScreen :: "(int \<Rightarrow> string) \<Rightarrow> screen \<Rightarrow> ProfileView" where
  "ProfileScreen toLocaleString s =
     (if loading s then Loading_profile
      else Content_profile
        (case userProfile s of
           None \<Rightarrow> ''User''
         | Some p \<Rightarrow> if full_name p = [] then ''User'' else full_name p)
        ((case userProfile s of
            None \<Rightarrow> ''0''
          | Some p \<Rightarrow>
              if toLocaleString (points p) = [] then ''0'' else toLocaleString (points p))
         @ '' Points'')
        (case userProfile s of
           None \<Rightarrow> None
         | Some p \<Rightarrow> Some (getMembershipLevel_profile (points p)))
        (refreshing s))"

section \<open>Splash router (src/app/index.tsx)\<close>







section \<open>The store: catalog and rows (provisioning script)\<close>

text \<open>
  The provisioning script is SQL run by the store. Each statement is a function from
  the store to an error or the store after it. The store holds the catalog objects the
  script creates, by name, and the rows of the two tables it speaks about.
\<close>

type_synonym uuid = string
type_synonym timestamptz = int

text \<open>
  A \<open>jsonb\<close> value as the operator \<open>->>\<close> reads it: JSON null, a string, or any other
  value with its text.
\<close>

datatype jsonb = JNull | JString string | JOther string

text \<open>
  The row \<open>NEW\<close> of \<open>auth.users\<close>, with the columns the script reads. The table belongs
  to the authentication provider: \<open>id\<close> is its primary key, \<open>email\<close> and
  \<open>raw_user_meta_data\<close> (a JSON object) may be NULL.
\<close>

record auth_users_row =
  id_new :: uuid
  email_new :: "string option"
  raw_user_meta_data :: "(string \<times> jsonb) list option"

text \<open>
  A row of \<open>user_profiles\<close>. \<open>id\<close> (primary key) and \<open>email\<close> (\<open>NOT NULL\<close>) always
  hold a value; the other four columns may be NULL (\<open>None\<close>).
\<close>

record user_profiles_row =
  id_col :: uuid
  email_col :: string
  full_name_col :: "string option"
  points_col :: "int option"
  created_at_col :: "timestamptz option"
  updated_at_col :: "timestamptz option"

datatype command = SELECT | INSERT | UPDATE | DELETE

datatype timing = BEFORE | AFTER

text \<open>The one policy expression of the script: \<open>auth.uid() = id\<close>.\<close>

datatype expr = Auth_uid_eq_id

text \<open>The two function bodies of the script.\<close>

datatype plpgsql = Handle_new_user | Update_updated_at_column

record policy =
  polname :: string
  polrelid :: string
  polcmd :: command
  polroles :: "string list"
  polqual :: "expr option"
  polwithcheck :: "expr option"

record trigger =
  tgname :: string
  tgrelid :: string
  tgtiming :: timing
  tgevent :: command
  tgfunc :: string

record store =
  tables :: "string list"
  rowsecurity :: "string list"
  policies :: "policy list"
  funcs :: "(string \<times> plpgsql) list"
  triggers :: "trigger list"
  auth_users :: "auth_users_row list"
  user_profiles :: "user_profiles_row list"

datatype pg_error =
  Undefined_table string
| Undefined_function string
| Duplicate_object string
| Not_null_violation string
| Unique_violation string
| Foreign_key_violation string

subsection \<open>Statements\<close>

text \<open>
  \<open>CREATE TABLE IF NOT EXISTS name (... REFERENCES r ...)\<close>: nothing happens when the
  table is there; otherwise the referenced tables must exist.
\<close>

definition create_table_if_not_exists ::
  "string \<Rightarrow> string list \<Rightarrow> store \<Rightarrow> pg_error + store" where
  "create_table_if_not_exists name refs s =
     (if name \<in> set (tables s) then Inr s
      else case filter (\<lambda>r. r \<notin> set (tables s)) refs of
             r # _ \<Rightarrow> Inl (Undefined_table r)
           | [] \<Rightarrow> Inr (s\<lparr>tables := tables s @ [name]\<rparr>))"

text \<open>\<open>ALTER TABLE name ENABLE ROW LEVEL SECURITY\<close>: sets a flag of the table.\<close>

definition alter_table_enable_row_level_security ::
  "string \<Rightarrow> store \<Rightarrow> pg_error + store" where
  "alter_table_enable_row_level_security name s =
     (if name \<notin> set (tables s) then Inl (Undefined_table name)
      else Inr (s\<lparr>rowsecurity := List.insert name (rowsecurity s)\<rparr>))"

text \<open>
  \<open>CREATE POLICY\<close> has no \<open>IF NOT EXISTS\<close> form: a policy of that name on that table
  is an error.
\<close>

definition create_policy :: "policy \<Rightarrow> store \<Rightarrow> pg_error + store" where
  "create_policy p s =
     (if polrelid p \<notin> set (tables s) then Inl (Undefined_table (polrelid p))
      else if list_ex (\<lambda>q. polname q = polname p \<and> polrelid q = polrelid p) (policies s)
      then Inl (Duplicate_object (polname p))
      else Inr (s\<lparr>policies := policies s @ [p]\<rparr>))"

text \<open>\<open>CREATE OR REPLACE FUNCTION\<close>: defines the function or replaces its body.\<close>

definition create_or_replace_function ::
  "string \<Rightarrow> plpgsql \<Rightarrow> store \<Rightarrow> pg_error + store" where
  "create_or_replace_function name body s =
     Inr (s\<lparr>funcs := AList.update name body (funcs s)\<rparr>)"

definition create_trigger :: "trigger \<Rightarrow> store \<Rightarrow> pg_error + store" where
  "create_trigger t s =
     (if tgrelid t \<notin> set (tables s) then Inl (Undefined_table (tgrelid t))
      else if map_of (funcs s) (tgfunc t) = None
      then Inl (Undefined_function (tgfunc t))
      else if list_ex (\<lambda>q. tgname q = tgname t \<and> tgrelid q = tgrelid t) (triggers s)
      then Inl (Duplicate_object (tgname t))
      else Inr (s\<lparr>triggers := triggers s @ [t]\<rparr>))"

text \<open>
  \<open>DO $$ BEGIN IF NOT EXISTS (SELECT 1 FROM pg_trigger WHERE tgname = name) THEN stmt;
  END IF; END $$\<close>: the guard looks at the trigger's name on any table.
\<close>

definition do_if_not_exists_trigger ::
  "string \<Rightarrow> (store \<Rightarrow> pg_error + store) \<Rightarrow> store \<Rightarrow> pg_error + store" where
  "do_if_not_exists_trigger name stmt s =
     (if \<not> list_ex (\<lambda>t. tgname t = name) (triggers s) then stmt s else Inr s)"

subsection \<open>The script\<close>

definition migration :: "(store \<Rightarrow> pg_error + store) list" where
  "migration =
     [create_table_if_not_exists ''user_profiles'' [''auth.users''],
      alter_table_enable_row_level_security ''user_profiles'',
      create_policy
        \<lparr>polname = ''Users can read own profile'', polrelid = ''user_profiles'',
         polcmd = SELECT, polroles = [''authenticated''],
         polqual = Some Auth_uid_eq_id, polwithcheck = None\<rparr>,
      create_policy
        \<lparr>polname = ''Users can update own profile'', polrelid = ''user_profiles'',
         polcmd = UPDATE, polroles = [''authenticated''],
         polqual = Some Auth_uid_eq_id, polwithcheck = Some Auth_uid_eq_id\<rparr>,
      create_policy
        \<lparr>polname = ''Users can insert own profile'', polrelid = ''user_profiles'',
         polcmd = INSERT, polroles = [''authenticated''],
         polqual = None, polwithcheck = Some Auth_uid_eq_id\<rparr>,
      create_or_replace_function ''handle_new_user'' Handle_new_user,
      do_if_not_exists_trigger ''on_auth_user_created''
        (create_trigger
           \<lparr>tgname = ''on_auth_user_created'', tgrelid = ''auth.users'',
            tgtiming = AFTER, tgevent = INSERT, tgfunc = ''handle_new_user''\<rparr>),
      create_or_replace_function ''update_updated_at_column'' Update_updated_at_column,
      do_if_not_exists_trigger ''update_user_profiles_updated_at''
        (create_trigger
           \<lparr>tgname = ''update_user_profiles_updated_at'', tgrelid = ''user_profiles'',
            tgtiming = BEFORE, tgevent = UPDATE, tgfunc = ''update_updated_at_column''\<rparr>)]"

text \<open>
  Running a script: statement after statement, stopping at the first error. The result
  is the store as the run leaves it and the error that stopped it, if any.
\<close>

fun run_script ::
  "(store \<Rightarrow> pg_error + store) list \<Rightarrow> store \<Rightarrow> store \<times> pg_error option" where
  "run_script [] s = (s, None)"
| "run_script (stmt # stmts) s =
     (case stmt s of Inl e \<Rightarrow> (s, Some e) | Inr s' \<Rightarrow> run_script stmts s')"

text \<open>A store with the identity table and nothing else, and the same store provisioned.\<close>

definition store0 :: store where
  "store0 =
     \<lparr>tables = [''auth.users''], rowsecurity = [], policies = [], funcs = [],
      triggers = [], auth_users = [], user_profiles = []\<rparr>"

definition provisioned :: store where
  "provisioned = fst (run_script migration store0)"

subsection \<open>Rows: insert, the two trigger functions, update, delete\<close>

text \<open>
  A column of an \<open>INSERT\<close>: left out of the column list (\<open>None\<close>, the column's
  \<open>DEFAULT\<close> applies) or given a value, which may be NULL.
\<close>

fun column_value :: "'a option \<Rightarrow> 'a option option \<Rightarrow> 'a option" where
  "column_value dflt None = dflt"
| "column_value dflt (Some v) = v"

record user_profiles_insert =
  ins_id :: "uuid option option"
  ins_email :: "string option option"
  ins_full_name :: "string option option"
  ins_points :: "int option option"
  ins_created_at :: "timestamptz option option"
  ins_updated_at :: "timestamptz option option"

text \<open>
  \<open>INSERT INTO user_profiles\<close>, with the table's defaults (\<open>points DEFAULT 0\<close>,
  \<open>created_at\<close> and \<open>updated_at DEFAULT now()\<close>) and its constraints (\<open>id\<close> primary key
  referencing \<open>auth.users\<close>, \<open>email UNIQUE NOT NULL\<close>).
\<close>

definition insert_user_profiles ::
  "timestamptz \<Rightarrow> user_profiles_insert \<Rightarrow> store \<Rightarrow> pg_error + store" where
  "insert_user_profiles now v s =
     (if ''user_profiles'' \<notin> set (tables s) then Inl (Undefined_table ''user_profiles'')
      else case column_value None (ins_id v) of
        None \<Rightarrow> Inl (Not_null_violation ''id'')
      | Some i \<Rightarrow>
         (case column_value None (ins_email v) of
            None \<Rightarrow> Inl (Not_null_violation ''email'')
          | Some e \<Rightarrow>
              if i \<in> set (map id_col (user_profiles s))
              then Inl (Unique_violation ''user_profiles_pkey'')
              else if e \<in> set (map email_col (user_profiles s))
              then Inl (Unique_violation ''user_profiles_email_key'')
              else if i \<notin> set (map id_new (auth_users s))
              then Inl (Foreign_key_violation ''user_profiles_id_fkey'')
              else Inr (s\<lparr>user_profiles := user_profiles s @
                [\<lparr>id_col = i, email_col = e,
                  full_name_col = column_value None (ins_full_name v),
                  points_col = column_value (Some 0) (ins_points v),
                  created_at_col = column_value (Some now) (ins_created_at v),
                  updated_at_col = column_value (Some now) (ins_updated_at v)\<rparr>]\<rparr>)))"

text \<open>\<open>meta ->> key\<close> and \<open>COALESCE (x, d)\<close>.\<close>

definition json_text :: "(string \<times> jsonb) list option \<Rightarrow> string \<Rightarrow> string option" where
  "json_text meta key =
     (case meta of
        None \<Rightarrow> None
      | Some obj \<Rightarrow>
         (case map_of obj key of
            None \<Rightarrow> None
          | Some JNull \<Rightarrow> None
          | Some (JString t) \<Rightarrow> Some t
          | Some (JOther t) \<Rightarrow> Some t))"

fun COALESCE :: "'a option \<Rightarrow> 'a \<Rightarrow> 'a" where
  "COALESCE None d = d"
| "COALESCE (Some x) d = x"

definition handle_new_user ::
  "timestamptz \<Rightarrow> auth_users_row \<Rightarrow> store \<Rightarrow> pg_error + store" where
  "handle_new_user now NEW s =
     insert_user_profiles now
       \<lparr>ins_id = Some (Some (id_new NEW)),
        ins_email = Some (email_new NEW),
        ins_full_name =
          Some (Some (COALESCE (json_text (raw_user_meta_data NEW) ''full_name'') [])),
        ins_points = Some (Some 1000),
        ins_created_at = None,
        ins_updated_at = None\<rparr> s"

definition update_updated_at_column ::
  "timestamptz \<Rightarrow> user_profiles_row \<Rightarrow> user_profiles_row" where
  "update_updated_at_column now NEW = NEW\<lparr>updated_at_col := Some now\<rparr>"

text \<open>The bodies of the row triggers installed on a table for a timing and an event.\<close>

definition trigger_functions :: "store \<Rightarrow> string \<Rightarrow> timing \<Rightarrow> command \<Rightarrow> plpgsql list" where
  "trigger_functions s rel tm ev =
     List.map_filter
       (\<lambda>t. if tgrelid t = rel \<and> tgtiming t = tm \<and> tgevent t = ev
            then map_of (funcs s) (tgfunc t) else None)
       (triggers s)"

text \<open>
  \<open>INSERT INTO auth.users\<close>: the row is stored, then the \<open>AFTER INSERT\<close> triggers run
  on it; an error in a trigger fails the whole insert.
\<close>

fun after_insert_auth_users ::
  "plpgsql list \<Rightarrow> timestamptz \<Rightarrow> auth_users_row \<Rightarrow> store \<Rightarrow> pg_error + store" where
  "after_insert_auth_users [] now NEW s = Inr s"
| "after_insert_auth_users (Handle_new_user # fs) now NEW s =
     (case handle_new_user now NEW s of
        Inl e \<Rightarrow> Inl e
      | Inr s' \<Rightarrow> after_insert_auth_users fs now NEW s')"
| "after_insert_auth_users (Update_updated_at_column # fs) now NEW s =
     after_insert_auth_users fs now NEW s"

definition insert_auth_users ::
  "timestamptz \<Rightarrow> auth_users_row \<Rightarrow> store \<Rightarrow> pg_error + store" where
  "insert_auth_users now NEW s =
     (if id_new NEW \<in> set (map id_new (auth_users s))
      then Inl (Unique_violation ''users_pkey'')
      else after_insert_auth_users (trigger_functions s ''auth.users'' AFTER INSERT)
             now NEW (s\<lparr>auth_users := auth_users s @ [NEW]\<rparr>))"

text \<open>
  \<open>UPDATE user_profiles SET ... WHERE id = i\<close>: for the row of that id, \<open>NEW\<close> is the
  old row with the assignments \<open>set\<close> applied; the \<open>BEFORE UPDATE\<close> triggers may change
  \<open>NEW\<close>; what they return is written, subject to the table's constraints.
\<close>

fun before_update_user_profiles ::
  "plpgsql list \<Rightarrow> timestamptz \<Rightarrow> user_profiles_row \<Rightarrow> user_profiles_row" where
  "before_update_user_profiles [] now NEW = NEW"
| "before_update_user_profiles (Update_updated_at_column # fs) now NEW =
     before_update_user_profiles fs now (update_updated_at_column now NEW)"
| "before_update_user_profiles (Handle_new_user # fs) now NEW =
     before_update_user_profiles fs now NEW"

definition update_user_profiles ::
  "timestamptz \<Rightarrow> uuid \<Rightarrow> (user_profiles_row \<Rightarrow> user_profiles_row) \<Rightarrow> store
     \<Rightarrow> pg_error + store" where
  "update_user_profiles now i set_cols s =
     (let rows = map (\<lambda>OLD. if id_col OLD = i
                        then before_update_user_profiles
                               (trigger_functions s ''user_profiles'' BEFORE UPDATE)
                               now (set_cols OLD)
                        else OLD) (user_profiles s)
      in if \<not> distinct (map id_col rows)
         then Inl (Unique_violation ''user_profiles_pkey'')
         else if \<not> distinct (map email_col rows)
         then Inl (Unique_violation ''user_profiles_email_key'')
         else if \<not> list_all (\<lambda>r. id_col r \<in> set (map id_new (auth_users s))) rows
         then Inl (Foreign_key_violation ''user_profiles_id_fkey'')
         else Inr (s\<lparr>user_profiles := rows\<rparr>))"

text \<open>
  \<open>DELETE FROM auth.users WHERE id = i\<close>: \<open>ON DELETE CASCADE\<close> removes the profile
  rows that reference the identity.
\<close>

definition delete_auth_users :: "uuid \<Rightarrow> store \<Rightarrow> store" where
  "delete_auth_users i s =
     s\<lparr>auth_users := filter (\<lambda>u. id_new u \<noteq> i) (auth_users s),
       user_profiles := filter (\<lambda>r. id_col r \<noteq> i) (user_profiles s)\<rparr>"

subsection \<open>Row-level security\<close>

text \<open>
  A request reaches the store with a role and the identity \<open>auth.uid()\<close> of its token
  (NULL without one). The script ENABLEs row-level security on the table and does not
  FORCE it, so the policies bind the roles that are subject to row security and no
  others: a superuser, a role with the \<open>BYPASSRLS\<close> attribute and the owner of the
  table are exempt, which \<open>bypassrls\<close> records for the session's role. That is also
  why \<open>handle_new_user\<close>, declared \<open>SECURITY DEFINER\<close> and so run as the role that
  ran the script and owns the table, inserts without a policy being consulted.

  For a session that is not exempt, a row of a table with row-level security enabled is
  reachable by a command only through a policy for that command and role: \<open>USING\<close> is
  tested on existing rows, \<open>WITH CHECK\<close> (or \<open>USING\<close> where the policy has none) on
  new rows. With no policy for the command nothing passes.
\<close>

record session =
  role :: string
  bypassrls :: bool
  auth_uid :: "uuid option"

fun eval_expr :: "expr \<Rightarrow> session \<Rightarrow> user_profiles_row \<Rightarrow> bool" where
  "eval_expr Auth_uid_eq_id c r = (auth_uid c = Some (id_col r))"

definition policy_applies :: "policy \<Rightarrow> string \<Rightarrow> command \<Rightarrow> session \<Rightarrow> bool" where
  "policy_applies p rel cmd c =
     (polrelid p = rel \<and> polcmd p = cmd \<and> role c \<in> set (polroles p))"

definition passes_using ::
  "store \<Rightarrow> string \<Rightarrow> command \<Rightarrow> session \<Rightarrow> user_profiles_row \<Rightarrow> bool" where
  "passes_using s rel cmd c r =
     (if rel \<in> set (rowsecurity s) \<and> \<not> bypassrls c then
        list_ex (\<lambda>p. policy_applies p rel cmd c \<and>
                   (case polqual p of None \<Rightarrow> True | Some e \<Rightarrow> eval_expr e c r))
          (policies s)
      else True)"

definition passes_check ::
  "store \<Rightarrow> string \<Rightarrow> command \<Rightarrow> session \<Rightarrow> user_profiles_row \<Rightarrow> bool" where
  "passes_check s rel cmd c r =
     (if rel \<in> set (rowsecurity s) \<and> \<not> bypassrls c then
        list_ex (\<lambda>p. policy_applies p rel cmd c \<and>
                   (case polwithcheck p of
                      Some e \<Rightarrow> eval_expr e c r
                    | None \<Rightarrow> (case polqual p of None \<Rightarrow> True | Some e \<Rightarrow> eval_expr e c r)))
          (policies s)
      else True)"

definition can_select :: "store \<Rightarrow> session \<Rightarrow> user_profiles_row \<Rightarrow> bool" where
  "can_select s c r = passes_using s ''user_profiles'' SELECT c r"

definition can_insert :: "store \<Rightarrow> session \<Rightarrow> user_profiles_row \<Rightarrow> bool" where
  "can_insert s c new = passes_check s ''user_profiles'' INSERT c new"

definition can_update ::
  "store \<Rightarrow> session \<Rightarrow> user_profiles_row \<Rightarrow> user_profiles_row \<Rightarrow> bool" where
  "can_update s c old new =
     (passes_using s ''user_profiles'' UPDATE c old
      \<and> passes_check s ''user_profiles'' UPDATE c new)"

definition can_delete :: "store \<Rightarrow> session \<Rightarrow> user_profiles_row \<Rightarrow> bool" where
  "can_delete s c r = passes_using s ''user_profiles'' DELETE c r"

section \<open>Classifier: theorems\<close>

text \<open>
  C1. The classifier is a total function of the balance alone. On every integer (so on
  every balance \<open>p \<ge> 0\<close>) it yields Diamond/#8B5CF6 from 10000 up, Gold/#F59E0B on
  5000..9999, Silver/#6B7280 on 1000..4999 and Bronze/#92400E below 1000; the six
  boundary values fall on the tier whose lower bound they are; and the Profile screen's
  classifier, with its icon dropped, is the Home screen's.
\<close>

theorem getMembershipLevel_table:
  fixes p :: int
  shows "(10000 \<le> p \<longrightarrow>
            getMembershipLevel_home p = \<lparr>level = ''Diamond'', color = ''#8B5CF6''\<rparr>)
       \<and> (5000 \<le> p \<and> p \<le> 9999 \<longrightarrow>
            getMembershipLevel_home p = \<lparr>level = ''Gold'', color = ''#F59E0B''\<rparr>)
       \<and> (1000 \<le> p \<and> p \<le> 4999 \<longrightarrow>
            getMembershipLevel_home p = \<lparr>level = ''Silver'', color = ''#6B7280''\<rparr>)
       \<and> (p < 1000 \<longrightarrow>
            getMembershipLevel_home p = \<lparr>level = ''Bronze'', color = ''#92400E''\<rparr>)
       \<and> level (getMembershipLevel_home p) \<in> {''Bronze'', ''Silver'', ''Gold'', ''Diamond''}
       \<and> MembershipInfo.truncate (getMembershipLevel_profile p) = getMembershipLevel_home p
       \<and> level (getMembershipLevel_home 999) = ''Bronze''
       \<and> level (getMembershipLevel_home 1000) = ''Silver''
       \<and> level (getMembershipLevel_home 4999) = ''Silver''
       \<and> level (getMembershipLevel_home 5000) = ''Gold''
       \<and> level (getMembershipLevel_home 9999) = ''Gold''
       \<and> level (getMembershipLevel_home 10000) = ''Diamond''"
  by (simp add: getMembershipLevel_home_def getMembershipLevel_profile_def
      MembershipInfo.truncate_def)

theorem getMembershipLevel_table_witness:
  "(1000::int) \<le> 1000 \<and> (1000::int) \<le> 4999
   \<and> getMembershipLevel_home 1000 = \<lparr>level = ''Silver'', color = ''#6B7280''\<rparr>
   \<and> (10000::int) \<le> 12345
   \<and> getMembershipLevel_home 12345 = \<lparr>level = ''Diamond'', color = ''#8B5CF6''\<rparr>
   \<and> (5000::int) \<le> 5000 \<and> (5000::int) \<le> 9999
   \<and> getMembershipLevel_home 5000 = \<lparr>level = ''Gold'', color = ''#F59E0B''\<rparr>
   \<and> (0::int) < 1000
   \<and> getMembershipLevel_home 0 = \<lparr>level = ''Bronze'', color = ''#92400E''\<rparr>"
  using getMembershipLevel_table [of 1000] getMembershipLevel_table [of 12345]
    getMembershipLevel_table [of 5000] getMembershipLevel_table [of 0]
  by simp

section \<open>Provisioning: what the script builds\<close>

lemma provisioned_eq:
  "provisioned =
     \<lparr>tables = [''auth.users'', ''user_profiles''], rowsecurity = [''user_profiles''],
      policies =
        [\<lparr>polname = ''Users can read own profile'', polrelid = ''user_profiles'',
          polcmd = SELECT, polroles = [''authenticated''],
          polqual = Some Auth_uid_eq_id, polwithcheck = None\<rparr>,
         \<lparr>polname = ''Users can update own profile'', polrelid = ''user_profiles'',
          polcmd = UPDATE, polroles = [''authenticated''],
          polqual = Some Auth_uid_eq_id, polwithcheck = Some Auth_uid_eq_id\<rparr>,
         \<lparr>polname = ''Users can insert own profile'', polrelid = ''user_profiles'',
          polcmd = INSERT, polroles = [''authenticated''],
          polqual = None, polwithcheck = Some Auth_uid_eq_id\<rparr>],
      funcs = [(''handle_new_user'', Handle_new_user),
               (''update_updated_at_column'', Update_updated_at_column)],
      triggers =
        [\<lparr>tgname = ''on_auth_user_created'', tgrelid = ''auth.users'',
          tgtiming = AFTER, tgevent = INSERT, tgfunc = ''handle_new_user''\<rparr>,
         \<lparr>tgname = ''update_user_profiles_updated_at'', tgrelid = ''user_profiles'',
          tgtiming = BEFORE, tgevent = UPDATE, tgfunc = ''update_updated_at_column''\<rparr>],
      auth_users = [], user_profiles = []\<rparr>"
  by (simp add: provisioned_def migration_def store0_def create_table_if_not_exists_def
      alter_table_enable_row_level_security_def create_policy_def
      create_or_replace_function_def create_trigger_def do_if_not_exists_trigger_def)

lemma after_insert_triggers_provisioned:
  "trigger_functions (provisioned\<lparr>auth_users := us, user_profiles := ps\<rparr>)
     ''auth.users'' AFTER INSERT = [Handle_new_user]"
  by (simp add: provisioned_eq trigger_functions_def List.map_filter_simps)

lemma before_update_triggers_provisioned:
  "trigger_functions (provisioned\<lparr>auth_users := us, user_profiles := ps\<rparr>)
     ''user_profiles'' BEFORE UPDATE = [Update_updated_at_column]"
  by (simp add: provisioned_eq trigger_functions_def List.map_filter_simps)

text \<open>
  C2. The script run on a store that holds the identity table alone succeeds and builds
  one \<open>user_profiles\<close> table, three policies and the two triggers. Run again on the
  store it has built, it stops at its third statement: the table and the row-security
  flag are guarded, \<open>CREATE POLICY "Users can read own profile"\<close> is not, and the policy
  is there. The store is left as the first run built it.
\<close>

theorem second_provisioning_run_fails:
  "run_script migration store0 = (provisioned, None)
   \<and> run_script migration provisioned =
       (provisioned, Some (Duplicate_object ''Users can read own profile''))
   \<and> tables provisioned = [''auth.users'', ''user_profiles'']
   \<and> map polname (policies provisioned) =
       [''Users can read own profile'', ''Users can update own profile'',
        ''Users can insert own profile'']
   \<and> map tgname (triggers provisioned) =
       [''on_auth_user_created'', ''update_user_profiles_updated_at'']"
proof (intro conjI)
  show "run_script migration store0 = (provisioned, None)"
    unfolding provisioned_eq
    by (simp add: migration_def store0_def create_table_if_not_exists_def
        alter_table_enable_row_level_security_def create_policy_def
        create_or_replace_function_def create_trigger_def do_if_not_exists_trigger_def)
  show "run_script migration provisioned =
       (provisioned, Some (Duplicate_object ''Users can read own profile''))"
    unfolding provisioned_eq
    by (simp add: migration_def create_table_if_not_exists_def
        alter_table_enable_row_level_security_def create_policy_def)
qed (simp_all add: provisioned_eq)

section \<open>Rows: creation\<close>

lemma column_value_None_Some: "column_value None c = Some x \<longleftrightarrow> c = Some (Some x)"
  by (cases c) auto

lemma insert_user_profiles_Inr:
  assumes "insert_user_profiles now v s = Inr s'"
  shows "\<exists>i e. ins_id v = Some (Some i) \<and> ins_email v = Some (Some e)
           \<and> s' = s\<lparr>user_profiles := user_profiles s @
                [\<lparr>id_col = i, email_col = e,
                  full_name_col = column_value None (ins_full_name v),
                  points_col = column_value (Some 0) (ins_points v),
                  created_at_col = column_value (Some now) (ins_created_at v),
                  updated_at_col = column_value (Some now) (ins_updated_at v)\<rparr>]\<rparr>"
  using assms unfolding insert_user_profiles_def
  by (auto split: if_splits option.splits simp: column_value_None_Some)

text \<open>
  C3, as the code has it. The column's default is 0: an insert that names no points
  value stores a row with \<open>points = 0\<close>. The signup trigger names the value: the row it
  stores has \<open>points = 1000\<close>.
\<close>

theorem points_at_creation:
  fixes now :: timestamptz and NEW :: auth_users_row and v :: user_profiles_insert
    and s s1 s2 :: store
  shows "(handle_new_user now NEW s = Inr s1 \<longrightarrow>
            (\<exists>r. user_profiles s1 = user_profiles s @ [r] \<and> points_col r = Some 1000))
       \<and> (ins_points v = None \<and> insert_user_profiles now v s = Inr s2 \<longrightarrow>
            (\<exists>r. user_profiles s2 = user_profiles s @ [r] \<and> points_col r = Some 0))"
proof (intro conjI impI)
  assume "handle_new_user now NEW s = Inr s1"
  then show "\<exists>r. user_profiles s1 = user_profiles s @ [r] \<and> points_col r = Some 1000"
    unfolding handle_new_user_def by (auto dest!: insert_user_profiles_Inr)
next
  assume "ins_points v = None \<and> insert_user_profiles now v s = Inr s2"
  then show "\<exists>r. user_profiles s2 = user_profiles s @ [r] \<and> points_col r = Some 0"
    by (auto dest!: insert_user_profiles_Inr)
qed

text \<open>
  The two cases at an identity \<open>u1\<close> that has no profile row yet: the trigger function
  stores 1000 points, an insert of id and email alone stores 0.
\<close>

theorem points_at_creation_witness:
  "handle_new_user 7 \<lparr>id_new = ''u1'', email_new = Some ''a@x.com'', raw_user_meta_data = None\<rparr>
     (provisioned\<lparr>auth_users := [\<lparr>id_new = ''u1'', email_new = Some ''a@x.com'', raw_user_meta_data = None\<rparr>]\<rparr>)
   = Inr (provisioned
       \<lparr>auth_users := [\<lparr>id_new = ''u1'', email_new = Some ''a@x.com'', raw_user_meta_data = None\<rparr>],
        user_profiles :=
          [\<lparr>id_col = ''u1'', email_col = ''a@x.com'', full_name_col = Some [],
            points_col = Some 1000, created_at_col = Some 7, updated_at_col = Some 7\<rparr>]\<rparr>)
   \<and> insert_user_profiles 7
       \<lparr>ins_id = Some (Some ''u1''), ins_email = Some (Some ''a@x.com''),
        ins_full_name = None, ins_points = None,
        ins_created_at = None, ins_updated_at = None\<rparr>
       (provisioned\<lparr>auth_users := [\<lparr>id_new = ''u1'', email_new = Some ''a@x.com'', raw_user_meta_data = None\<rparr>]\<rparr>)
   = Inr (provisioned
       \<lparr>auth_users := [\<lparr>id_new = ''u1'', email_new = Some ''a@x.com'', raw_user_meta_data = None\<rparr>],
        user_profiles :=
          [\<lparr>id_col = ''u1'', email_col = ''a@x.com'', full_name_col = None,
            points_col = Some 0, created_at_col = Some 7, updated_at_col = Some 7\<rparr>]\<rparr>)
   \<and> (\<exists>r. user_profiles (provisioned
       \<lparr>auth_users := [\<lparr>id_new = ''u1'', email_new = Some ''a@x.com'', raw_user_meta_data = None\<rparr>],
        user_profiles :=
          [\<lparr>id_col = ''u1'', email_col = ''a@x.com'', full_name_col = Some [],
            points_col = Some 1000, created_at_col = Some 7, updated_at_col = Some 7\<rparr>]\<rparr>) = [r]
          \<and> points_col r = Some 1000)
   \<and> (\<exists>r. user_profiles (provisioned
       \<lparr>auth_users := [\<lparr>id_new = ''u1'', email_new = Some ''a@x.com'', raw_user_meta_data = None\<rparr>],
        user_profiles :=
          [\<lparr>id_col = ''u1'', email_col = ''a@x.com'', full_name_col = None,
            points_col = Some 0, created_at_col = Some 7, updated_at_col = Some 7\<rparr>]\<rparr>) = [r]
          \<and> points_col r = Some 0)"
proof -
  let ?NEW = "\<lparr>id_new = ''u1'', email_new = Some ''a@x.com'', raw_user_meta_data = None\<rparr>"
  let ?v = "\<lparr>ins_id = Some (Some ''u1''), ins_email = Some (Some ''a@x.com''),
        ins_full_name = None, ins_points = None,
        ins_created_at = None, ins_updated_at = None\<rparr>"
  let ?s = "provisioned\<lparr>auth_users := [?NEW]\<rparr>"
  let ?s1 = "(provisioned
       \<lparr>auth_users := [\<lparr>id_new = ''u1'', email_new = Some ''a@x.com'', raw_user_meta_data = None\<rparr>],
        user_profiles :=
          [\<lparr>id_col = ''u1'', email_col = ''a@x.com'', full_name_col = Some [],
            points_col = Some 1000, created_at_col = Some 7, updated_at_col = Some 7\<rparr>]\<rparr>)"
  let ?s2 = "(provisioned
       \<lparr>auth_users := [\<lparr>id_new = ''u1'', email_new = Some ''a@x.com'', raw_user_meta_data = None\<rparr>],
        user_profiles :=
          [\<lparr>id_col = ''u1'', email_col = ''a@x.com'', full_name_col = None,
            points_col = Some 0, created_at_col = Some 7, updated_at_col = Some 7\<rparr>]\<rparr>)"
  have run1: "handle_new_user 7 ?NEW ?s = Inr ?s1"
    by (simp add: provisioned_eq handle_new_user_def insert_user_profiles_def json_text_def)
  have run2: "insert_user_profiles 7 ?v ?s = Inr ?s2"
    by (simp add: provisioned_eq insert_user_profiles_def)
  have omitted: "ins_points ?v = None"
    by simp
  have empty: "user_profiles ?s = []"
    by (simp add: provisioned_eq)
  from points_at_creation [of 7 ?NEW ?s ?s1 ?v ?s2] run1 run2 omitted empty
  show ?thesis
    by simp
qed

text \<open>
  C3 as stated fails: the identity \<open>u1\<close> exists and has no profile row; a row inserted
  for it with id and email and no points value has \<open>points = 0\<close>, not 1000.
\<close>

theorem points_default_counterexample:
  "insert_user_profiles 7
     \<lparr>ins_id = Some (Some ''u1''), ins_email = Some (Some ''a@x.com''),
      ins_full_name = None, ins_points = None,
      ins_created_at = None, ins_updated_at = None\<rparr>
     (provisioned\<lparr>auth_users := [\<lparr>id_new = ''u1'', email_new = Some ''a@x.com'', raw_user_meta_data = None\<rparr>]\<rparr>)
   = Inr (provisioned
       \<lparr>auth_users := [\<lparr>id_new = ''u1'', email_new = Some ''a@x.com'', raw_user_meta_data = None\<rparr>],
        user_profiles :=
          [\<lparr>id_col = ''u1'', email_col = ''a@x.com'', full_name_col = None,
            points_col = Some 0, created_at_col = Some 7, updated_at_col = Some 7\<rparr>]\<rparr>)
   \<and> points_col
       \<lparr>id_col = ''u1'', email_col = ''a@x.com'', full_name_col = None,
            points_col = Some 0, created_at_col = Some 7, updated_at_col = Some 7\<rparr>
     \<noteq> Some 1000"
  by (simp add: provisioned_eq insert_user_profiles_def)

text \<open>
  When the insert of an identity succeeds in the provisioned store: its id is new, it has
  an email, and no profile row has that id or that email.
\<close>

lemma insert_auth_users_succeeds:
  assumes "id_new NEW \<notin> set (map id_new us)" and "email_new NEW = Some e"
    and "id_new NEW \<notin> set (map id_col ps)" and "e \<notin> set (map email_col ps)"
  shows "\<exists>s'. insert_auth_users now NEW
           (provisioned\<lparr>auth_users := us, user_profiles := ps\<rparr>) = Inr s'"
proof -
  have "\<exists>s'. handle_new_user now NEW
          (provisioned\<lparr>user_profiles := ps, auth_users := us @ [NEW]\<rparr>) = Inr s'"
    using assms
    by (simp add: handle_new_user_def insert_user_profiles_def provisioned_eq)
  then show ?thesis
    using assms(1)
    by (auto simp: insert_auth_users_def after_insert_triggers_provisioned)
qed

text \<open>
  C4. In the provisioned store, whatever rows it holds, an identity that is inserted
  comes with exactly one new profile row, appended by the signup trigger: its id and
  email are the identity's, its \<open>full_name\<close> is the text of the metadata's
  \<open>full_name\<close> field, or the empty string when the metadata or the field is missing or
  null, and its points are 1000. Nothing else of the store changes.
\<close>

theorem signup_trigger_inserts_profile:
  assumes "insert_auth_users now NEW (provisioned\<lparr>auth_users := us, user_profiles := ps\<rparr>)
             = Inr s'"
  shows "\<exists>e. email_new NEW = Some e
           \<and> s' = provisioned\<lparr>auth_users := us @ [NEW], user_profiles := ps @
               [\<lparr>id_col = id_new NEW, email_col = e,
                 full_name_col = Some
                   (case raw_user_meta_data NEW of
                      None \<Rightarrow> []
                    | Some obj \<Rightarrow>
                       (case map_of obj ''full_name'' of
                          None \<Rightarrow> []
                        | Some JNull \<Rightarrow> []
                        | Some (JString n) \<Rightarrow> n
                        | Some (JOther n) \<Rightarrow> n)),
                 points_col = Some 1000,
                 created_at_col = Some now, updated_at_col = Some now\<rparr>]\<rparr>"
proof -
  let ?s = "provisioned\<lparr>user_profiles := ps, auth_users := us @ [NEW]\<rparr>"
  from assms have "handle_new_user now NEW ?s = Inr s'"
    by (auto simp: insert_auth_users_def after_insert_triggers_provisioned
        split: if_splits sum.splits)
  then show ?thesis
    unfolding handle_new_user_def
    by (auto dest!: insert_user_profiles_Inr simp: json_text_def
        split: option.splits jsonb.splits)
qed

text \<open>
  The scenario of the specification: identity \<open>u1\<close>, email \<open>a@x.com\<close>, no display
  name, inserted into the freshly provisioned store.
\<close>

theorem signup_trigger_inserts_profile_witness:
  "insert_auth_users 7 \<lparr>id_new = ''u1'', email_new = Some ''a@x.com'', raw_user_meta_data = Some []\<rparr>
     (provisioned\<lparr>auth_users := [], user_profiles := []\<rparr>)
   = Inr (provisioned
       \<lparr>auth_users := [\<lparr>id_new = ''u1'', email_new = Some ''a@x.com'', raw_user_meta_data = Some []\<rparr>],
        user_profiles :=
          [\<lparr>id_col = ''u1'', email_col = ''a@x.com'', full_name_col = Some [],
            points_col = Some 1000, created_at_col = Some 7, updated_at_col = Some 7\<rparr>]\<rparr>)"
proof -
  let ?NEW = "\<lparr>id_new = ''u1'', email_new = Some ''a@x.com'', raw_user_meta_data = Some []\<rparr>"
  have "\<exists>s'. insert_auth_users 7 ?NEW (provisioned\<lparr>auth_users := [], user_profiles := []\<rparr>)
          = Inr s'"
    by (simp add: provisioned_eq insert_auth_users_def trigger_functions_def
        List.map_filter_simps handle_new_user_def insert_user_profiles_def json_text_def)
  then obtain s' where
    run: "insert_auth_users 7 ?NEW (provisioned\<lparr>auth_users := [], user_profiles := []\<rparr>)
            = Inr s'" ..
  from signup_trigger_inserts_profile [OF run] show ?thesis
    unfolding run by simp
qed

section \<open>Rows: update\<close>

lemma before_update_single:
  "before_update_user_profiles [Update_updated_at_column] now NEW =
     NEW\<lparr>updated_at_col := Some now\<rparr>"
  by (simp add: update_updated_at_column_def)

text \<open>
  C5, as the code has it. In the provisioned store an update of the row with id \<open>i\<close>
  writes, for that row, what the update assigned with \<open>updated_at\<close> replaced by
  \<open>now()\<close>, and leaves every other row and the rest of the store as they were. The
  trigger function changes \<open>updated_at\<close> and no other column, \<open>created_at\<close> among
  them. The new \<open>updated_at\<close> is \<open>now()\<close> whatever the old one was: it is strictly
  greater when \<open>now()\<close> is later than the old value.
\<close>

theorem update_trigger_sets_updated_at:
  assumes "update_user_profiles now i set_cols
             (provisioned\<lparr>auth_users := us, user_profiles := ps\<rparr>) = Inr s'"
  shows "s' = provisioned\<lparr>auth_users := us, user_profiles :=
                map (\<lambda>OLD. if id_col OLD = i
                            then (set_cols OLD)\<lparr>updated_at_col := Some now\<rparr>
                            else OLD) ps\<rparr>
       \<and> updated_at_col (update_updated_at_column now NEW) = Some now
       \<and> created_at_col (update_updated_at_column now NEW) = created_at_col NEW
       \<and> id_col (update_updated_at_column now NEW) = id_col NEW
       \<and> email_col (update_updated_at_column now NEW) = email_col NEW
       \<and> full_name_col (update_updated_at_column now NEW) = full_name_col NEW
       \<and> points_col (update_updated_at_column now NEW) = points_col NEW
       \<and> (\<forall>t. updated_at_col OLD = Some t \<and> t < now \<longrightarrow>
            (\<exists>t'. updated_at_col (update_updated_at_column now NEW) = Some t' \<and> t < t'))"
proof -
  from assms have "s' = (provisioned\<lparr>auth_users := us, user_profiles := ps\<rparr>)
      \<lparr>user_profiles :=
         map (\<lambda>OLD. if id_col OLD = i
                     then (set_cols OLD)\<lparr>updated_at_col := Some now\<rparr>
                     else OLD) ps\<rparr>"
    unfolding update_user_profiles_def before_update_triggers_provisioned
      before_update_single Let_def
    by (auto split: if_splits)
  then show ?thesis
    by (simp add: update_updated_at_column_def)
qed

text \<open>
  The profile of \<open>u1\<close>, written at time 5, gets 100 points more at time 9:
  \<open>updated_at\<close> becomes 9, \<open>created_at\<close> stays 5.
\<close>

theorem update_trigger_sets_updated_at_witness:
  "update_user_profiles 9 ''u1'' (\<lambda>r. r\<lparr>points_col := Some 1100\<rparr>)
     (provisioned
       \<lparr>auth_users := [\<lparr>id_new = ''u1'', email_new = Some ''a@x.com'', raw_user_meta_data = Some []\<rparr>],
        user_profiles :=
          [\<lparr>id_col = ''u1'', email_col = ''a@x.com'', full_name_col = Some [],
            points_col = Some 1000, created_at_col = Some 5, updated_at_col = Some 5\<rparr>]\<rparr>)
   = Inr (provisioned
       \<lparr>auth_users := [\<lparr>id_new = ''u1'', email_new = Some ''a@x.com'', raw_user_meta_data = Some []\<rparr>],
        user_profiles :=
          [\<lparr>id_col = ''u1'', email_col = ''a@x.com'', full_name_col = Some [],
            points_col = Some 1100, created_at_col = Some 5, updated_at_col = Some 9\<rparr>]\<rparr>)"
proof -
  let ?s = "(provisioned
       \<lparr>auth_users := [\<lparr>id_new = ''u1'', email_new = Some ''a@x.com'', raw_user_meta_data = Some []\<rparr>],
        user_profiles :=
          [\<lparr>id_col = ''u1'', email_col = ''a@x.com'', full_name_col = Some [],
            points_col = Some 1000, created_at_col = Some 5, updated_at_col = Some 5\<rparr>]\<rparr>)"
  have "\<exists>s'. update_user_profiles 9 ''u1'' (\<lambda>r. r\<lparr>points_col := Some 1100\<rparr>) ?s = Inr s'"
    by (simp add: provisioned_eq trigger_functions_def List.map_filter_simps
        update_user_profiles_def update_updated_at_column_def)
  then obtain s' where
    run: "update_user_profiles 9 ''u1'' (\<lambda>r. r\<lparr>points_col := Some 1100\<rparr>) ?s = Inr s'" ..
  from update_trigger_sets_updated_at [OF run, THEN conjunct1] show ?thesis
    unfolding run by simp
qed

text \<open>
  C5 as stated fails: \<open>now()\<close> is the start time of the transaction, so a row stored by
  the signup trigger and updated in the same transaction (both at time 5) keeps the
  \<open>updated_at\<close> it had: the new value is not strictly greater than the prior one.
\<close>

theorem updated_at_counterexample:
  "insert_auth_users 5 \<lparr>id_new = ''u1'', email_new = Some ''a@x.com'', raw_user_meta_data = Some []\<rparr>
     (provisioned\<lparr>auth_users := [], user_profiles := []\<rparr>)
   = Inr (provisioned
       \<lparr>auth_users := [\<lparr>id_new = ''u1'', email_new = Some ''a@x.com'', raw_user_meta_data = Some []\<rparr>],
        user_profiles :=
          [\<lparr>id_col = ''u1'', email_col = ''a@x.com'', full_name_col = Some [],
            points_col = Some 1000, created_at_col = Some 5, updated_at_col = Some 5\<rparr>]\<rparr>)
   \<and> update_user_profiles 5 ''u1'' (\<lambda>r. r\<lparr>points_col := Some 1100\<rparr>)
     (provisioned
       \<lparr>auth_users := [\<lparr>id_new = ''u1'', email_new = Some ''a@x.com'', raw_user_meta_data = Some []\<rparr>],
        user_profiles :=
          [\<lparr>id_col = ''u1'', email_col = ''a@x.com'', full_name_col = Some [],
            points_col = Some 1000, created_at_col = Some 5, updated_at_col = Some 5\<rparr>]\<rparr>)
   = Inr (provisioned
       \<lparr>auth_users := [\<lparr>id_new = ''u1'', email_new = Some ''a@x.com'', raw_user_meta_data = Some []\<rparr>],
        user_profiles :=
          [\<lparr>id_col = ''u1'', email_col = ''a@x.com'', full_name_col = Some [],
            points_col = Some 1100, created_at_col = Some 5, updated_at_col = Some 5\<rparr>]\<rparr>)
   \<and> updated_at_col
       \<lparr>id_col = ''u1'', email_col = ''a@x.com'', full_name_col = Some [],
            points_col = Some 1100, created_at_col = Some 5, updated_at_col = Some 5\<rparr>
     = updated_at_col
       \<lparr>id_col = ''u1'', email_col = ''a@x.com'', full_name_col = Some [],
            points_col = Some 1000, created_at_col = Some 5, updated_at_col = Some 5\<rparr>"
  by (simp add: provisioned_eq insert_auth_users_def trigger_functions_def
      List.map_filter_simps handle_new_user_def insert_user_profiles_def json_text_def
      update_user_profiles_def update_updated_at_column_def)

section \<open>Row-level security\<close>

text \<open>
  C9. In the provisioned store, whatever rows it holds, a session that is subject to row
  security may select a row, insert a row, or update a row (old and new version) exactly
  when its role is \<open>authenticated\<close> and its identity is the row's id, and may delete no
  row: there is no policy for \<open>DELETE\<close>. The only sessions that reach another row, or
  delete one, are those of a role exempt from row security. Deleting an identity removes
  exactly the profile rows with its id.
\<close>

theorem own_row_policies:
  "(can_select (provisioned\<lparr>auth_users := us, user_profiles := ps\<rparr>) c r
      \<longleftrightarrow> bypassrls c \<or> role c = ''authenticated'' \<and> auth_uid c = Some (id_col r))
   \<and> (can_insert (provisioned\<lparr>auth_users := us, user_profiles := ps\<rparr>) c r
      \<longleftrightarrow> bypassrls c \<or> role c = ''authenticated'' \<and> auth_uid c = Some (id_col r))
   \<and> (can_update (provisioned\<lparr>auth_users := us, user_profiles := ps\<rparr>) c r r'
      \<longleftrightarrow> bypassrls c \<or> role c = ''authenticated'' \<and> auth_uid c = Some (id_col r)
           \<and> auth_uid c = Some (id_col r'))
   \<and> (can_delete (provisioned\<lparr>auth_users := us, user_profiles := ps\<rparr>) c r \<longleftrightarrow> bypassrls c)
   \<and> filter (\<lambda>p. polcmd p = DELETE) (policies provisioned) = []
   \<and> user_profiles (delete_auth_users i
        (provisioned\<lparr>auth_users := us, user_profiles := ps\<rparr>))
      = filter (\<lambda>r. id_col r \<noteq> i) ps"
  by (auto simp: provisioned_eq can_select_def can_insert_def can_update_def can_delete_def
      passes_using_def passes_check_def policy_applies_def delete_auth_users_def)

text \<open>
  The authenticated identity \<open>u1\<close>: it reads and updates its own row, it reads neither
  the row of \<open>u2\<close> nor may it move its row to the id \<open>u2\<close> or insert one for \<open>u2\<close>,
  and it deletes neither row. A session without the role (\<open>anon\<close>, no identity) reads
  nothing. Deleting the identity \<open>u1\<close> leaves the row of \<open>u2\<close>.
\<close>

theorem own_row_policies_witness:
  "can_select provisioned \<lparr>role = ''authenticated'', bypassrls = False, auth_uid = Some ''u1''\<rparr>
       \<lparr>id_col = ''u1'', email_col = ''a@x.com'', full_name_col = Some [],
         points_col = Some 1000, created_at_col = Some 5, updated_at_col = Some 5\<rparr>
   \<and> \<not> can_select provisioned \<lparr>role = ''authenticated'', bypassrls = False, auth_uid = Some ''u1''\<rparr>
       \<lparr>id_col = ''u2'', email_col = ''b@x.com'', full_name_col = Some [],
         points_col = Some 1000, created_at_col = Some 5, updated_at_col = Some 5\<rparr>
   \<and> can_update provisioned \<lparr>role = ''authenticated'', bypassrls = False, auth_uid = Some ''u1''\<rparr>
       \<lparr>id_col = ''u1'', email_col = ''a@x.com'', full_name_col = Some [],
         points_col = Some 1000, created_at_col = Some 5, updated_at_col = Some 5\<rparr>
       \<lparr>id_col = ''u1'', email_col = ''c@x.com'', full_name_col = Some [],
         points_col = Some 1000, created_at_col = Some 5, updated_at_col = Some 5\<rparr>
   \<and> \<not> can_update provisioned \<lparr>role = ''authenticated'', bypassrls = False, auth_uid = Some ''u1''\<rparr>
       \<lparr>id_col = ''u1'', email_col = ''a@x.com'', full_name_col = Some [],
         points_col = Some 1000, created_at_col = Some 5, updated_at_col = Some 5\<rparr>
       \<lparr>id_col = ''u2'', email_col = ''a@x.com'', full_name_col = Some [],
         points_col = Some 1000, created_at_col = Some 5, updated_at_col = Some 5\<rparr>
   \<and> \<not> can_insert provisioned \<lparr>role = ''authenticated'', bypassrls = False, auth_uid = Some ''u1''\<rparr>
       \<lparr>id_col = ''u2'', email_col = ''b@x.com'', full_name_col = Some [],
         points_col = Some 1000, created_at_col = Some 5, updated_at_col = Some 5\<rparr>
   \<and> \<not> can_delete provisioned \<lparr>role = ''authenticated'', bypassrls = False, auth_uid = Some ''u1''\<rparr>
       \<lparr>id_col = ''u1'', email_col = ''a@x.com'', full_name_col = Some [],
         points_col = Some 1000, created_at_col = Some 5, updated_at_col = Some 5\<rparr>
   \<and> \<not> can_delete provisioned \<lparr>role = ''authenticated'', bypassrls = False, auth_uid = Some ''u1''\<rparr>
       \<lparr>id_col = ''u2'', email_col = ''b@x.com'', full_name_col = Some [],
         points_col = Some 1000, created_at_col = Some 5, updated_at_col = Some 5\<rparr>
   \<and> \<not> can_select provisioned \<lparr>role = ''anon'', bypassrls = False, auth_uid = None\<rparr>
       \<lparr>id_col = ''u1'', email_col = ''a@x.com'', full_name_col = Some [],
         points_col = Some 1000, created_at_col = Some 5, updated_at_col = Some 5\<rparr>
   \<and> user_profiles (delete_auth_users ''u1''
        (provisioned\<lparr>auth_users := [], user_profiles :=
          [\<lparr>id_col = ''u1'', email_col = ''a@x.com'', full_name_col = Some [],
         points_col = Some 1000, created_at_col = Some 5, updated_at_col = Some 5\<rparr>,
           \<lparr>id_col = ''u2'', email_col = ''b@x.com'', full_name_col = Some [],
         points_col = Some 1000, created_at_col = Some 5, updated_at_col = Some 5\<rparr>]\<rparr>))
     = [\<lparr>id_col = ''u2'', email_col = ''b@x.com'', full_name_col = Some [],
         points_col = Some 1000, created_at_col = Some 5, updated_at_col = Some 5\<rparr>]"
proof -
  have whole: "provisioned\<lparr>auth_users := [], user_profiles := []\<rparr> = provisioned"
    by (simp add: provisioned_eq)
  note own_row_policies [where us = "[]" and ps = "[]", unfolded whole]
  note t = this [where c = "\<lparr>role = ''authenticated'', bypassrls = False, auth_uid = Some ''u1''\<rparr>"]
  note a = own_row_policies [where us = "[]" and ps = "[]", unfolded whole,
      where c = "\<lparr>role = ''anon'', bypassrls = False, auth_uid = None\<rparr>"
        and r = "\<lparr>id_col = ''u1'', email_col = ''a@x.com'', full_name_col = Some [],
         points_col = Some 1000, created_at_col = Some 5, updated_at_col = Some 5\<rparr>"]
  note d = own_row_policies [where i = "''u1''" and us = "[]" and ps =
          "[\<lparr>id_col = ''u1'', email_col = ''a@x.com'', full_name_col = Some [],
         points_col = Some 1000, created_at_col = Some 5, updated_at_col = Some 5\<rparr>,
           \<lparr>id_col = ''u2'', email_col = ''b@x.com'', full_name_col = Some [],
         points_col = Some 1000, created_at_col = Some 5, updated_at_col = Some 5\<rparr>]"]
  from t [where r = "\<lparr>id_col = ''u1'', email_col = ''a@x.com'', full_name_col = Some [],
         points_col = Some 1000, created_at_col = Some 5, updated_at_col = Some 5\<rparr>"
            and r' = "\<lparr>id_col = ''u1'', email_col = ''c@x.com'', full_name_col = Some [],
         points_col = Some 1000, created_at_col = Some 5, updated_at_col = Some 5\<rparr>"]
    t [where r = "\<lparr>id_col = ''u1'', email_col = ''a@x.com'', full_name_col = Some [],
         points_col = Some 1000, created_at_col = Some 5, updated_at_col = Some 5\<rparr>"
            and r' = "\<lparr>id_col = ''u2'', email_col = ''a@x.com'', full_name_col = Some [],
         points_col = Some 1000, created_at_col = Some 5, updated_at_col = Some 5\<rparr>"]
    t [where r = "\<lparr>id_col = ''u2'', email_col = ''b@x.com'', full_name_col = Some [],
         points_col = Some 1000, created_at_col = Some 5, updated_at_col = Some 5\<rparr>"]
    a d
  show ?thesis
    by simp
qed

section \<open>Screens: the profile fetch\<close>

text \<open>
  C6, as the code has it. A fetch that the store answers with an error or an exception
  queries the store once, raises one alert with a fixed message, clears the loading flag
  and leaves the stored profile as it was: the Home screen's points text is \<open>0\<close> when
  no profile was stored before, and the stored balance otherwise.
\<close>

theorem failed_fetch_keeps_state:
  assumes "supabase (id_user u) = Error e \<or> supabase (id_user u) = Throw e"
  shows "alerts (fetchUserProfile supabase (Some u) s) =
           alerts s @ [(''Error'',
             case supabase (id_user u) of
               Error x \<Rightarrow> ''Failed to load profile data''
             | Throw x \<Rightarrow> ''Something went wrong''
             | Data d \<Rightarrow> [])]
       \<and> requests (fetchUserProfile supabase (Some u) s) = requests s @ [id_user u]
       \<and> userProfile (fetchUserProfile supabase (Some u) s) = userProfile s
       \<and> loading (fetchUserProfile supabase (Some u) s) = False
       \<and> refreshing (fetchUserProfile supabase (Some u) s) = refreshing s
       \<and> pointsValue (HomeScreen toLocaleString (fetchUserProfile supabase (Some u) s)) =
           (case userProfile s of None \<Rightarrow> ''0'' | Some p \<Rightarrow> toLocaleString (points p))"
  using assms
  by (auto simp: fetchUserProfile_def fetchUserProfile_begin_def fetchUserProfile_resume_def
      HomeScreen_def)

text \<open>
  The first fetch of a screen, answered with an error and with an exception: one alert,
  one query, no profile, points text \<open>0\<close>.
\<close>

theorem failed_fetch_keeps_state_witness:
  "alerts (fetchUserProfile (\<lambda>q. Error ''PGRST116'') (Some \<lparr>id_user = ''u1'', ref = 0\<rparr>)
       initial_screen)
     = [(''Error'', ''Failed to load profile data'')]
   \<and> requests (fetchUserProfile (\<lambda>q. Error ''PGRST116'') (Some \<lparr>id_user = ''u1'', ref = 0\<rparr>)
       initial_screen)
     = [''u1'']
   \<and> userProfile (fetchUserProfile (\<lambda>q. Error ''PGRST116'') (Some \<lparr>id_user = ''u1'', ref = 0\<rparr>)
       initial_screen)
     = None
   \<and> pointsValue (HomeScreen (\<lambda>n. ''1,000'')
       (fetchUserProfile (\<lambda>q. Error ''PGRST116'') (Some \<lparr>id_user = ''u1'', ref = 0\<rparr>)
       initial_screen))
     = ''0''
   \<and> alerts (fetchUserProfile (\<lambda>q. Throw ''Network request failed'') (Some \<lparr>id_user = ''u1'', ref = 0\<rparr>)
       initial_screen)
     = [(''Error'', ''Something went wrong'')]
   \<and> requests (fetchUserProfile (\<lambda>q. Throw ''Network request failed'') (Some \<lparr>id_user = ''u1'', ref = 0\<rparr>)
       initial_screen)
     = [''u1'']
   \<and> userProfile (fetchUserProfile (\<lambda>q. Throw ''Network request failed'') (Some \<lparr>id_user = ''u1'', ref = 0\<rparr>)
       initial_screen)
     = None"
  using
    failed_fetch_keeps_state
      [where supabase = "\<lambda>q. Error ''PGRST116''" and u = "\<lparr>id_user = ''u1'', ref = 0\<rparr>"
         and e = "''PGRST116''" and s = initial_screen
         and toLocaleString = "\<lambda>n. ''1,000''"]
    failed_fetch_keeps_state
      [where supabase = "\<lambda>q. Throw ''Network request failed''"
         and u = "\<lparr>id_user = ''u1'', ref = 0\<rparr>"
         and e = "''Network request failed''" and s = initial_screen
         and toLocaleString = "\<lambda>n. ''1,000''"]
  by (simp add: initial_screen_def)

text \<open>
  C6 as stated fails: a screen that shows a fetched profile and fetches again (pull to
  refresh) with the store answering an error still holds the profile afterwards; it is
  not in the state without data.
\<close>

theorem failed_refresh_counterexample:
  "userProfile (fetchUserProfile (\<lambda>q. Error ''PGRST116'') (Some \<lparr>id_user = ''u1'', ref = 0\<rparr>)
     \<lparr>userProfile = Some
         \<lparr>id_profile = ''u1'', email = ''a@x.com'', full_name = ''Ann'',
          points = 1000, created_at = ''2025-01-01''\<rparr>,
      loading = False, refreshing = False, alerts = [], console_error = [],
      requests = [''u1'']\<rparr>)
   = Some \<lparr>id_profile = ''u1'', email = ''a@x.com'', full_name = ''Ann'',
          points = 1000, created_at = ''2025-01-01''\<rparr>
   \<and> userProfile (fetchUserProfile (\<lambda>q. Error ''PGRST116'') (Some \<lparr>id_user = ''u1'', ref = 0\<rparr>)
     \<lparr>userProfile = Some
         \<lparr>id_profile = ''u1'', email = ''a@x.com'', full_name = ''Ann'',
          points = 1000, created_at = ''2025-01-01''\<rparr>,
      loading = False, refreshing = False, alerts = [], console_error = [],
      requests = [''u1'']\<rparr>)
   \<noteq> None"
  by (simp add: fetchUserProfile_def fetchUserProfile_begin_def fetchUserProfile_resume_def)

text \<open>
  C7. Pull to refresh, on either screen: up to the arrival of the store's answer the
  stored profile and the loading flag are what they were, so the screen renders what it
  rendered, with the refresh control on. When the answer arrives the stored profile is
  the new row if the answer is a row, and unchanged if it is an error or an exception.
\<close>

theorem refresh_keeps_profile:
  "userProfile (state_of (onRefresh_begin usr s)) = userProfile s
   \<and> loading (state_of (onRefresh_begin usr s)) = loading s
   \<and> HomeScreen toLocaleString (state_of (onRefresh_begin usr s)) =
       HomeScreen toLocaleString (s\<lparr>refreshing := True\<rparr>)
   \<and> ProfileScreen toLocaleString (state_of (onRefresh_begin usr s)) =
       ProfileScreen toLocaleString (s\<lparr>refreshing := True\<rparr>)
   \<and> userProfile (onRefresh_resume r s1) =
       (case r of Data d \<Rightarrow> Some d | Error e \<Rightarrow> userProfile s1 | Throw e \<Rightarrow> userProfile s1)
   \<and> onRefresh supabase usr s =
       (case onRefresh_begin usr s of
          Returned s' \<Rightarrow> s'\<lparr>refreshing := False\<rparr>
        | Awaiting q s' \<Rightarrow> onRefresh_resume (supabase q) s')"
  by (auto simp: onRefresh_begin_def onRefresh_resume_def onRefresh_def
      fetchUserProfile_begin_def fetchUserProfile_resume_def HomeScreen_def ProfileScreen_def
      split: option.splits response.splits)

text \<open>
  A screen that shows the profile of \<open>u1\<close> is pulled to refresh: while the query is
  out, the profile is still stored.
\<close>

theorem refresh_keeps_profile_witness:
  "onRefresh_begin (Some \<lparr>id_user = ''u1'', ref = 0\<rparr>)
     \<lparr>userProfile = Some
         \<lparr>id_profile = ''u1'', email = ''a@x.com'', full_name = ''Ann'',
          points = 1000, created_at = ''2025-01-01''\<rparr>,
      loading = False, refreshing = False, alerts = [], console_error = [],
      requests = [''u1'']\<rparr>
   = Awaiting ''u1''
     \<lparr>userProfile = Some
         \<lparr>id_profile = ''u1'', email = ''a@x.com'', full_name = ''Ann'',
          points = 1000, created_at = ''2025-01-01''\<rparr>,
      loading = False, refreshing = True, alerts = [], console_error = [],
      requests = [''u1'', ''u1'']\<rparr>"
  using refresh_keeps_profile [of "Some \<lparr>id_user = ''u1'', ref = 0\<rparr>"
      "\<lparr>userProfile = Some
         \<lparr>id_profile = ''u1'', email = ''a@x.com'', full_name = ''Ann'',
          points = 1000, created_at = ''2025-01-01''\<rparr>,
      loading = False, refreshing = False, alerts = [], console_error = [],
      requests = [''u1'']\<rparr>"]
  by (simp add: onRefresh_begin_def fetchUserProfile_begin_def)

lemma fetchUserProfile_None: "fetchUserProfile supabase None s = s"
  by (simp add: fetchUserProfile_def fetchUserProfile_begin_def)

lemma fetchUserProfile_None_funpow: "(fetchUserProfile supabase None ^^ n) s = s"
  by (induction n) (simp_all add: fetchUserProfile_None)

text \<open>
  C10. With no identity the fetch returns at once: no query, no alert, the state
  unchanged. A screen in its initial state stays in it however often the fetch is
  called so: no profile, the loading flag set, and both screens on their loading view.
\<close>

theorem fetch_without_identity:
  "fetchUserProfile_begin None s = Returned s
   \<and> fetchUserProfile supabase None s = s
   \<and> (fetchUserProfile supabase None ^^ n) initial_screen = initial_screen
   \<and> userProfile ((fetchUserProfile supabase None ^^ n) initial_screen) = None
   \<and> loading ((fetchUserProfile supabase None ^^ n) initial_screen) = True
   \<and> alerts ((fetchUserProfile supabase None ^^ n) initial_screen) = []
   \<and> requests ((fetchUserProfile supabase None ^^ n) initial_screen) = []
   \<and> HomeScreen toLocaleString ((fetchUserProfile supabase None ^^ n) initial_screen)
       = Loading_home
   \<and> ProfileScreen toLocaleString ((fetchUserProfile supabase None ^^ n) initial_screen)
       = Loading_profile"
  by (simp add: fetchUserProfile_None_funpow fetchUserProfile_None
      fetchUserProfile_begin_def initial_screen_def HomeScreen_def ProfileScreen_def)

section \<open>Splash router\<close>









end
